theory Spec2Isabelle
  imports Main "HOL-Library.Word"
begin

section \<open>JavaScript values used by \<open>backend/server.js\<close>\<close>

text \<open>
  A request parameter or a field of an upstream posting is either absent (\<open>undefined\<close>,
  modelled as \<open>None\<close>) or a string. Strings are lists of 8-bit characters, read as the
  code points U+0000 to U+00FF; times are milliseconds. The title and the company name
  of a posting are the exception: they reach \<open>encodeURIComponent\<close>, which reads UTF-16
  code units and throws on a surrogate without its partner, so these two fields are lists
  of 16-bit code units.
\<close>

type_synonym utf16 = "16 word list"

text \<open>The code units of a string of the first kind.\<close>

definition units :: "string \<Rightarrow> utf16" where
  "units s = map of_char s"

definition toUnits :: "utf16 option \<Rightarrow> utf16" where
  "toUnits v = (case v of None \<Rightarrow> units ''undefined'' | Some s \<Rightarrow> s)"

definition truthy :: "string option \<Rightarrow> bool" where
  "truthy v = (case v of None \<Rightarrow> False | Some s \<Rightarrow> s \<noteq> [])"

text \<open>String conversion as done by a template literal and by \<open>+\<close> on strings.\<close>

definition toStr :: "string option \<Rightarrow> string" where
  "toStr v = (case v of None \<Rightarrow> ''undefined'' | Some s \<Rightarrow> s)"

text \<open>\<open>v || d\<close> for a string-valued default.\<close>

definition orElse :: "string option \<Rightarrow> string \<Rightarrow> string" where
  "orElse v d = (case v of None \<Rightarrow> d | Some s \<Rightarrow> if s = [] then d else s)"

text \<open>\<open>String.prototype.toLowerCase\<close> on the code points below U+0100.\<close>

definition toLowerChar :: "char \<Rightarrow> char" where
  "toLowerChar c =
     (let n = (of_char c :: nat)
      in if (65 \<le> n \<and> n \<le> 90) \<or> (192 \<le> n \<and> n \<le> 222 \<and> n \<noteq> 215)
         then char_of (n + 32) else c)"

definition toLowerCase :: "string \<Rightarrow> string" where
  "toLowerCase s = map toLowerChar s"

text \<open>\<open>String.prototype.startsWith\<close> and \<open>String.prototype.includes\<close>.\<close>

fun startsWith :: "string \<Rightarrow> string \<Rightarrow> bool" where
  "startsWith s [] = True"
| "startsWith [] (p # ps) = False"
| "startsWith (c # cs) (p # ps) = (c = p \<and> startsWith cs ps)"

fun includesStr :: "string \<Rightarrow> string \<Rightarrow> bool" where
  "includesStr [] p = (p = [])"
| "includesStr (c # cs) p = (startsWith (c # cs) p \<or> includesStr cs p)"

section \<open>Upstream postings and requests\<close>

record related_link =
  link_text :: "string option"
  link :: "string option"

record rawJob =
  title :: "utf16 option"
  company_name :: "utf16 option"
  job_location :: "string option"
  salary :: "string option"
  description :: "string option"
  related_links :: "related_link list option"

text \<open>The parameters destructured from \<open>req.query\<close> (or \<open>req.body\<close>).\<close>

record query =
  keyword :: "string option"
  location :: "string option"
  next_page_token :: "string option"

text \<open>The \<open>params\<close> object handed to \<open>axios.get\<close>.\<close>

record upstreamParams =
  q :: string
  param_location :: string
  api_key :: string
  param_next_page_token :: "string option"

text \<open>
  What \<open>await axios.get(...)\<close> yields: a rejection carrying \<open>error.message\<close> and, when
  the provider answered, \<open>error.response.data?.error\<close>; or the fields of
  \<open>response.data\<close> that the handlers read.
\<close>

record axiosError =
  message :: string
  response_error :: "string option option"

record upstreamData =
  jobs_results :: "rawJob list option"
  total_results :: "nat option"
  pagination_token :: "string option"

datatype upstream = Rejected axiosError | Resolved upstreamData

record jobRecord =
  company :: "utf16 option"
  role :: "utf16 option"
  rec_location :: string
  rec_salary :: string
  url :: string
  ats_keywords :: "string list"

datatype body =
    RawJobs "rawJob list"
  | Jobs "jobRecord list option" nat "string option"
  | ErrorBody "string option" "string option"
  | NoContent

datatype response = Response nat body

section \<open>Cache key and result cache (the \<open>GET /scrape-jobs\<close> handler)\<close>

text \<open>\<open>const cacheKey = `${keyword}-${location}`\<close>: built from the raw parameters.\<close>

definition cacheKey :: "query \<Rightarrow> string" where
  "cacheKey qu = toStr (keyword qu) @ ''-'' @ toStr (location qu)"

text \<open>
  The module-level \<open>Map\<close> together with the pending \<open>setTimeout\<close> callbacks, each
  recorded as its deadline and the key it deletes; callbacks are kept in the order in
  which they were scheduled.
\<close>

record server =
  cache :: "string \<rightharpoonup> rawJob list"
  timers :: "(nat \<times> string) list"

definition initial :: server where
  "initial = \<lparr>cache = Map.empty, timers = []\<rparr>"

text \<open>\<open>cache.set(cacheKey, jobResults); setTimeout(() => cache.delete(cacheKey), 3600000)\<close>\<close>

definition ttl :: nat where
  "ttl = 3600000"

definition put :: "nat \<Rightarrow> string \<Rightarrow> rawJob list \<Rightarrow> server \<Rightarrow> server" where
  "put now k v st = st\<lparr>cache := (cache st)(k \<mapsto> v), timers := timers st @ [(now + ttl, k)]\<rparr>"

text \<open>
  The clock reaches \<open>t\<close>: every callback whose deadline has been reached runs
  \<open>cache.delete(key)\<close> and leaves the timer queue (an ideal scheduler, without delay).
\<close>

fun fire :: "nat \<Rightarrow> (nat \<times> string) list \<Rightarrow> (string \<rightharpoonup> rawJob list) \<Rightarrow> (string \<rightharpoonup> rawJob list)" where
  "fire t [] c = c"
| "fire t ((d, k) # ts) c = fire t ts (if d \<le> t then c(k := None) else c)"

definition advance :: "nat \<Rightarrow> server \<Rightarrow> server" where
  "advance t st = \<lparr>cache = fire t (timers st) (cache st),
                   timers = filter (\<lambda>(d, k). t < d) (timers st)\<rparr>"

text \<open>\<open>cache.has(key) ? cache.get(key) : absent\<close>, asked at time \<open>t\<close>.\<close>

definition get :: "nat \<Rightarrow> string \<Rightarrow> server \<Rightarrow> rawJob list option" where
  "get t k st = cache (advance t st) k"

text \<open>
  The handler registered with \<open>app.get\<close> runs in two parts: up to the \<open>await\<close>, and from
  the upstream answer on. The first part answers at once or asks for the upstream call.
\<close>

datatype 'a pending = Respond response | Await upstreamParams 'a

definition scrapeJobsGet :: "string option \<Rightarrow> server \<Rightarrow> query \<Rightarrow> string pending" where
  "scrapeJobsGet SERPAPI_KEY st qu =
     (let key = cacheKey qu
      in case cache st key of
           Some jobs \<Rightarrow> Respond (Response 200 (RawJobs jobs))
         | None \<Rightarrow>
             if \<not> truthy (keyword qu)
             then Respond (Response 400 (ErrorBody (Some ''Keyword is required'') None))
             else if \<not> truthy SERPAPI_KEY
             then Respond (Response 500
                    (ErrorBody (Some ''Server configuration error: Missing API key'') None))
             else Await \<lparr>q = toStr (keyword qu),
                         param_location = orElse (location qu) ''United States'',
                         api_key = toStr SERPAPI_KEY,
                         param_next_page_token = None\<rparr> key)"

definition scrapeJobsGetResume :: "nat \<Rightarrow> string \<Rightarrow> upstream \<Rightarrow> server \<Rightarrow> server \<times> response" where
  "scrapeJobsGetResume now key up st =
     (case up of
        Rejected e \<Rightarrow>
          (st, Response 500 (ErrorBody (Some ''API request failed'') (Some (message e))))
      | Resolved d \<Rightarrow>
          (let jobResults = (case jobs_results d of None \<Rightarrow> [] | Some js \<Rightarrow> js)
           in (put now key jobResults st, Response 200 (RawJobs jobResults))))"

section \<open>Keyword extraction\<close>

text \<open>
  Two things that \<open>extractKeywords\<close> relies on are not part of the repository and are
  parameters of the model: the word tokenizer of the \<open>natural\<close> package, and the order in
  which \<open>Array.prototype.sort\<close> leaves the entries when the comparison function returns
  \<open>NaN\<close> for some pairs (ECMAScript fixes the order only for a consistent comparison
  function; it then is a stable sort).
\<close>

text \<open>The value stored under a key of the frequency object: a number or a string.\<close>

datatype count = Num nat | Str string

record runtime =
  tokenize :: "string \<Rightarrow> string list"
  sortInconsistent :: "(string \<times> count) list \<Rightarrow> (string \<times> count) list"

definition predefinedKeywords :: "string list" where
  "predefinedKeywords =
     [''adjunct'', ''faculty'', ''professor'', ''tenure'', ''curriculum'', ''syllabus'',
      ''instructional design'', ''higher education'', ''assessment'', ''teaching'',
      ''pedagogy'', ''research'', ''graduate'', ''undergraduate'', ''accreditation'',
      ''learning outcomes'', ''student success'', ''academic advising'', ''STEM'',
      ''liberal arts'', ''education policy'', ''course development'', ''PhD'', ''EdD'',
      ''leadership'', ''diversity'', ''inclusion'', ''mentorship'', ''equity'',
      ''collaboration'', ''student engagement'', ''online teaching'', ''hybrid learning'']"

definition stopwords :: "string list" where
  "stopwords =
     [''the'', ''and'', ''for'', ''with'', ''that'', ''this'', ''will'', ''are'', ''have'',
      ''not'', ''all'', ''can'', ''but'', ''more'', ''some'']"

text \<open>\<open>word => word.length > 2 && !stopwords.has(word)\<close>\<close>

definition keep :: "string \<Rightarrow> bool" where
  "keep word = (length word > 2 \<and> word \<notin> set stopwords)"

text \<open>
  The accumulator of the \<open>reduce\<close> is a plain object: its own properties in creation
  order, over \<open>Object.prototype\<close>. Assigning to an existing own property keeps its place.
\<close>

type_synonym obj = "(string \<times> count) list"

fun setProp :: "obj \<Rightarrow> string \<Rightarrow> count \<Rightarrow> obj" where
  "setProp [] k v = [(k, v)]"
| "setProp ((k', v') # ps) k v =
     (if k' = k then (k', v) # ps else (k', v') # setProp ps k v)"

text \<open>
  The function-valued properties of \<open>Object.prototype\<close> (\<open>__proto__\<close> is its accessor
  property), and what \<open>String\<close> gives for such a function (V8's text).
\<close>

definition prototypeFunctions :: "string list" where
  "prototypeFunctions =
     [''constructor'', ''__defineGetter__'', ''__defineSetter__'', ''hasOwnProperty'',
      ''__lookupGetter__'', ''__lookupSetter__'', ''isPrototypeOf'', ''propertyIsEnumerable'',
      ''toString'', ''valueOf'', ''toLocaleString'']"

definition functionSource :: "string \<Rightarrow> string" where
  "functionSource name =
     ''function '' @ (if name = ''constructor'' then ''Object'' else name) @ ''() { [native code] }''"

text \<open>
  \<open>acc[word] = (acc[word] || 0) + 1\<close>. A word that is not yet an own property reads
  through the prototype: an inherited function makes \<open>+ 1\<close> append to its source text,
  and the result becomes an own property; \<open>__proto__\<close> reads an object, and its setter
  ignores the string assigned.
\<close>

definition countWord :: "obj \<Rightarrow> string \<Rightarrow> obj" where
  "countWord acc word =
     (case map_of acc word of
        Some (Num n) \<Rightarrow> setProp acc word (Num (n + 1))
      | Some (Str s) \<Rightarrow> setProp acc word (if s = [] then Num 1 else Str (s @ ''1''))
      | None \<Rightarrow>
          if word \<in> set prototypeFunctions
          then setProp acc word (Str (functionSource word @ ''1''))
          else if word = ''__proto__'' then acc
          else setProp acc word (Num 1))"

text \<open>
  \<open>Object.entries\<close> lists the keys that are array indices first, in ascending numeric
  order, and then the other keys in creation order. An array index is the canonical
  decimal form of an integer below \<open>2^32 - 1\<close>.
\<close>

definition isDigit :: "char \<Rightarrow> bool" where
  "isDigit c = (48 \<le> (of_char c :: nat) \<and> (of_char c :: nat) \<le> 57)"

definition decimal :: "string \<Rightarrow> int" where
  "decimal k = foldl (\<lambda>n c. 10 * n + ((of_char c :: int) - 48)) 0 k"

definition isArrayIndex :: "string \<Rightarrow> bool" where
  "isArrayIndex k =
     (case k of
        [] \<Rightarrow> False
      | c # cs \<Rightarrow> list_all isDigit k \<and> (c = CHR ''0'' \<longrightarrow> cs = []) \<and> decimal k < 4294967295)"

definition entries :: "obj \<Rightarrow> obj" where
  "entries ob =
     sort_key (\<lambda>e. decimal (fst e)) (filter (\<lambda>e. isArrayIndex (fst e)) ob)
     @ filter (\<lambda>e. \<not> isArrayIndex (fst e)) ob"

text \<open>
  \<open>.sort((a, b) => b[1] - a[1])\<close>: by descending count, stably, when every count is
  a number. With a string among the counts the difference is \<open>NaN\<close> for some pairs, and
  the order is the runtime's.
\<close>

definition isNum :: "count \<Rightarrow> bool" where
  "isNum c = (case c of Num n \<Rightarrow> True | Str s \<Rightarrow> False)"

definition numOf :: "count \<Rightarrow> nat" where
  "numOf c = (case c of Num n \<Rightarrow> n | Str s \<Rightarrow> 0)"

definition sortByCount :: "runtime \<Rightarrow> obj \<Rightarrow> obj" where
  "sortByCount rt es =
     (if list_all (\<lambda>e. isNum (snd e)) es
      then sort_key (\<lambda>e. - int (numOf (snd e))) es
      else sortInconsistent rt es)"

definition dynamicKeywords :: "string list \<Rightarrow> obj" where
  "dynamicKeywords ws = foldl countWord [] (filter keep ws)"

definition topDynamicKeywords :: "runtime \<Rightarrow> string list \<Rightarrow> string list" where
  "topDynamicKeywords rt ws = map fst (take 5 (sortByCount rt (entries (dynamicKeywords ws))))"

text \<open>\<open>[...new Set(xs)]\<close>: the elements of \<open>xs\<close> in the order of their first occurrence.\<close>

fun dedup :: "'a list \<Rightarrow> 'a list" where
  "dedup [] = []"
| "dedup (x # xs) = x # dedup (filter (\<lambda>y. y \<noteq> x) xs)"

definition extractKeywords :: "runtime \<Rightarrow> string option \<Rightarrow> string list" where
  "extractKeywords rt descr =
     (if \<not> truthy descr then []
      else
        (let ws = tokenize rt (toLowerCase (toStr descr))
         in take 10 (dedup (topDynamicKeywords rt ws
                            @ filter (\<lambda>word. word \<in> set predefinedKeywords) ws))))"

section \<open>Mapping a posting to a record (the \<open>app.all\<close> handler)\<close>

text \<open>
  \<open>encodeURIComponent\<close> reads the code units in order. ASCII letters, digits and
  \<open>- _ . ! ~ * ' ( )\<close> stay; every other code point becomes the percent-encoded bytes
  of its UTF-8 form, where a high surrogate followed by a low surrogate is one code
  point. A surrogate without its partner makes the call throw \<open>URIError\<close>.
\<close>

definition isAlnum :: "char \<Rightarrow> bool" where
  "isAlnum c =
     (let n = (of_char c :: nat)
      in (48 \<le> n \<and> n \<le> 57) \<or> (65 \<le> n \<and> n \<le> 90) \<or> (97 \<le> n \<and> n \<le> 122))"

definition isUnreserved :: "int \<Rightarrow> bool" where
  "isUnreserved n =
     ((48 \<le> n \<and> n \<le> 57) \<or> (65 \<le> n \<and> n \<le> 90) \<or> (97 \<le> n \<and> n \<le> 122)
      \<or> n \<in> set [45, 95, 46, 33, 126, 42, 39, 40, 41])"

definition hexDigit :: "nat \<Rightarrow> char" where
  "hexDigit d = ''0123456789ABCDEF'' ! (d mod 16)"

definition percent :: "nat \<Rightarrow> string" where
  "percent b = [CHR ''%'', hexDigit (b div 16), hexDigit b]"

text \<open>The encoding of one code point.\<close>

definition encodeCodePoint :: "int \<Rightarrow> string" where
  "encodeCodePoint n =
     (if n < 128 then (if isUnreserved n then [char_of n] else percent (nat n))
      else if n < 2048 then percent (nat (192 + n div 64)) @ percent (nat (128 + n mod 64))
      else if n < 65536
      then percent (nat (224 + n div 4096)) @ percent (nat (128 + n div 64 mod 64))
           @ percent (nat (128 + n mod 64))
      else percent (nat (240 + n div 262144)) @ percent (nat (128 + n div 4096 mod 64))
           @ percent (nat (128 + n div 64 mod 64)) @ percent (nat (128 + n mod 64)))"

datatype error = TypeError string | URIError string

definition errorMessage :: "error \<Rightarrow> string" where
  "errorMessage e = (case e of TypeError m \<Rightarrow> m | URIError m \<Rightarrow> m)"

fun encodeURIComponent :: "utf16 \<Rightarrow> error + string" where
  "encodeURIComponent [] = Inr []"
| "encodeURIComponent (u # us) =
     (let n = uint u
      in if n < 55296 \<or> 57344 \<le> n
         then (case encodeURIComponent us of
                 Inl e \<Rightarrow> Inl e
               | Inr r \<Rightarrow> Inr (encodeCodePoint n @ r))
         else if 56320 \<le> n then Inl (URIError ''URI malformed'')
         else (case us of
                 [] \<Rightarrow> Inl (URIError ''URI malformed'')
               | v # vs \<Rightarrow>
                   if uint v < 56320 \<or> 57344 \<le> uint v then Inl (URIError ''URI malformed'')
                   else (case encodeURIComponent vs of
                           Inl e \<Rightarrow> Inl e
                         | Inr r \<Rightarrow>
                             Inr (encodeCodePoint
                                    ((n - 55296) * 1024 + (uint v - 56320) + 65536) @ r))))"

text \<open>
  \<open>related_links.find(link => link.text.toLowerCase().includes("apply") ||
  link.text.toLowerCase().includes("job posting"))\<close>: the callback runs on the entries in
  order until one matches; reading \<open>toLowerCase\<close> of an absent \<open>text\<close> throws.
\<close>

definition isApplyText :: "string \<Rightarrow> bool" where
  "isApplyText t =
     (includesStr (toLowerCase t) ''apply'' \<or> includesStr (toLowerCase t) ''job posting'')"

fun findApply :: "related_link list \<Rightarrow> error + related_link option" where
  "findApply [] = Inr None"
| "findApply (l # ls) =
     (case link_text l of
        None \<Rightarrow> Inl (TypeError ''Cannot read properties of undefined (reading 'toLowerCase')'')
      | Some t \<Rightarrow> if isApplyText t then Inr (Some l) else findApply ls)"

text \<open>
  The template literal after \<open>||\<close>: evaluated only when no link was found or the link
  found has no target; it throws when \<open>encodeURIComponent\<close> does.
\<close>

definition fallbackLink :: "rawJob \<Rightarrow> error + string" where
  "fallbackLink job =
     (case encodeURIComponent
             (toUnits (title job) @ units '' '' @ toUnits (company_name job)
              @ units '' site:higheredjobs.com OR site:linkedin.com OR site:edjoin.org'') of
        Inl e \<Rightarrow> Inl e
      | Inr encoded \<Rightarrow> Inr (''https://www.google.com/search?q='' @ encoded))"

definition applyLink :: "rawJob \<Rightarrow> error + string" where
  "applyLink job =
     (case related_links job of
        None \<Rightarrow> fallbackLink job
      | Some ls \<Rightarrow>
          (case findApply ls of
             Inl e \<Rightarrow> Inl e
           | Inr None \<Rightarrow> fallbackLink job
           | Inr (Some l) \<Rightarrow> if truthy (link l) then Inr (toStr (link l)) else fallbackLink job))"

text \<open>The callback of \<open>jobs_results.map\<close>: \<open>None\<close> is its \<open>null\<close>.\<close>

definition mapJob :: "runtime \<Rightarrow> rawJob \<Rightarrow> error + jobRecord option" where
  "mapJob rt job =
     (if \<not> truthy (description job) then Inr None
      else
        (case applyLink job of
           Inl e \<Rightarrow> Inl e
         | Inr applyUrl \<Rightarrow>
             Inr (Some \<lparr>company = company_name job,
                        role = title job,
                        rec_location = orElse (job_location job) ''Not specified'',
                        rec_salary = orElse (salary job) ''Not provided'',
                        url = applyUrl,
                        ats_keywords = extractKeywords rt (description job)\<rparr>)))"

fun mapJobs :: "runtime \<Rightarrow> rawJob list \<Rightarrow> error + jobRecord option list" where
  "mapJobs rt [] = Inr []"
| "mapJobs rt (job # js) =
     (case mapJob rt job of
        Inl e \<Rightarrow> Inl e
      | Inr r \<Rightarrow> (case mapJobs rt js of Inl e \<Rightarrow> Inl e | Inr rs \<Rightarrow> Inr (r # rs)))"

text \<open>\<open>.filter(Boolean)\<close> on the mapped array.\<close>

fun filterBoolean :: "'a option list \<Rightarrow> 'a list" where
  "filterBoolean [] = []"
| "filterBoolean (None # rs) = filterBoolean rs"
| "filterBoolean (Some r # rs) = r # filterBoolean rs"

text \<open>
  The handler registered with \<open>app.all\<close>, again in two parts. Whatever is thrown after
  the \<open>await\<close> is caught and answered with status 500.
\<close>

definition scrapeJobsAll :: "string option \<Rightarrow> query \<Rightarrow> unit pending" where
  "scrapeJobsAll SERPAPI_KEY params =
     (if \<not> truthy (keyword params)
      then Respond (Response 400 (ErrorBody (Some ''Keyword is required'') None))
      else if \<not> truthy SERPAPI_KEY
      then Respond (Response 500
             (ErrorBody (Some ''Server configuration error: Missing API key'') None))
      else Await \<lparr>q = toStr (keyword params),
                  param_location = orElse (location params) ''United States'',
                  api_key = toStr SERPAPI_KEY,
                  param_next_page_token =
                    (if truthy (next_page_token params) then next_page_token params else None)\<rparr>
                 ())"

definition caught :: "string \<Rightarrow> response" where
  "caught m = Response 500 (ErrorBody (Some ''Failed to fetch jobs'') (Some m))"

definition scrapeJobsAllResume :: "runtime \<Rightarrow> upstream \<Rightarrow> response" where
  "scrapeJobsAllResume rt up =
     (case up of
        Rejected e \<Rightarrow>
          Response 500
            (ErrorBody (case response_error e of None \<Rightarrow> Some ''Failed to fetch jobs'' | Some x \<Rightarrow> x)
                       (Some (message e)))
      | Resolved d \<Rightarrow>
          (let next = (if truthy (pagination_token d) then pagination_token d else None)
           in case jobs_results d of
                None \<Rightarrow>
                  (case total_results d of
                     None \<Rightarrow> caught ''Cannot read properties of undefined (reading 'length')''
                   | Some n \<Rightarrow>
                       if n = 0 then caught ''Cannot read properties of undefined (reading 'length')''
                       else Response 200 (Jobs None n next))
              | Some js \<Rightarrow>
                  (case mapJobs rt js of
                     Inl e \<Rightarrow> caught (errorMessage e)
                   | Inr rs \<Rightarrow>
                       (let jobs = filterBoolean rs
                        in Response 200
                             (Jobs (Some jobs)
                                (case total_results d of
                                   None \<Rightarrow> length jobs
                                 | Some n \<Rightarrow> if n = 0 then length jobs else n)
                                next)))))"

text \<open>
  Routing. The \<open>cors\<close> middleware, installed first, answers every OPTIONS request with
  status 204 and no body. \<open>app.get("/scrape-jobs", ...)\<close> is registered before
  \<open>app.all\<close>, always answers, and serves HEAD requests as well (Express then sends the
  status without the body), so neither GET nor HEAD reaches the \<open>app.all\<close> handler; that
  handler reads \<open>req.body\<close> for POST and \<open>req.query\<close> otherwise.
\<close>

datatype httpMethod = GET | HEAD | POST | OPTIONS | OtherMethod

record request =
  req_method :: httpMethod
  req_query :: query
  req_body :: query

datatype continuation = ResumeGet string | ResumeAll

definition scrapeJobs :: "string option \<Rightarrow> server \<Rightarrow> request \<Rightarrow> continuation pending" where
  "scrapeJobs SERPAPI_KEY st req =
     (if req_method req = OPTIONS then Respond (Response 204 NoContent)
      else if req_method req = GET \<or> req_method req = HEAD
      then (case scrapeJobsGet SERPAPI_KEY st (req_query req) of
              Respond r \<Rightarrow> Respond r
            | Await p key \<Rightarrow> Await p (ResumeGet key))
      else (case scrapeJobsAll SERPAPI_KEY (if req_method req = POST then req_body req else req_query req) of
              Respond r \<Rightarrow> Respond r
            | Await p u \<Rightarrow> Await p ResumeAll))"

section \<open>A reference runtime for concrete runs\<close>

text \<open>
  Modelled from the spec: the tokenizer of the \<open>natural\<close> package is not in the
  repository; the spec describes its tokens as alphanumeric runs. Here a token is a
  maximal run of ASCII letters, digits and underscores; apostrophes get no special
  treatment, and the concrete runs below contain none.
\<close>

definition isWordChar :: "char \<Rightarrow> bool" where
  "isWordChar c = (isAlnum c \<or> c = CHR ''_'')"

fun splitWords :: "string \<Rightarrow> string \<Rightarrow> string list" where
  "splitWords cur [] = (if cur = [] then [] else [cur])"
| "splitWords cur (c # cs) =
     (if isWordChar c then splitWords (cur @ [c]) cs
      else if cur = [] then splitWords [] cs
      else cur # splitWords [] cs)"

definition wordTokenize :: "string \<Rightarrow> string list" where
  "wordTokenize s = splitWords [] s"

definition refRuntime :: runtime where
  "refRuntime = \<lparr>tokenize = wordTokenize, sortInconsistent = (\<lambda>es. es)\<rparr>"

section \<open>Reference orders for the frequency ranking\<close>

text \<open>
  The ranking in the words of the specification: the distinct tokens that pass the
  filter, in first-occurrence order, stably sorted by descending frequency.
\<close>

definition specRanking :: "string list \<Rightarrow> string list" where
  "specRanking ws =
     sort_key (\<lambda>w. - int (count_list (filter keep ws) w)) (dedup (filter keep ws))"

text \<open>
  The order in which an object enumerates keys that were created in the order \<open>ks\<close>:
  array indices ascending, then the rest as created.
\<close>

definition ownKeyOrder :: "string list \<Rightarrow> string list" where
  "ownKeyOrder ks = sort_key decimal (filter isArrayIndex ks) @ filter (\<lambda>k. \<not> isArrayIndex k) ks"

definition isUpper :: "char \<Rightarrow> bool" where
  "isUpper c = (65 \<le> (of_char c :: nat) \<and> (of_char c :: nat) \<le> 90)"

section \<open>Sample data for concrete runs\<close>

definition nurse :: rawJob where
  "nurse = \<lparr>title = Some (units ''Nurse''), company_name = Some (units ''Clinic''), job_location = None,
            salary = None, description = Some ''care'', related_links = None\<rparr>"

definition medic :: rawJob where
  "medic = \<lparr>title = Some (units ''Medic''), company_name = Some (units ''Ward''), job_location = None,
            salary = None, description = Some ''aid'', related_links = None\<rparr>"

definition reply :: "rawJob list \<Rightarrow> upstream" where
  "reply js = Resolved \<lparr>jobs_results = Some js, total_results = None, pagination_token = None\<rparr>"

definition getRequest :: "string option \<Rightarrow> string option \<Rightarrow> request" where
  "getRequest k l =
     \<lparr>req_method = GET,
      req_query = \<lparr>keyword = k, location = l, next_page_token = None\<rparr>,
      req_body = \<lparr>keyword = None, location = None, next_page_token = None\<rparr>\<rparr>"

text \<open>A posting whose only related link is not an apply link, and one whose link has no text.\<close>

definition adjunct :: rawJob where
  "adjunct = \<lparr>title = Some (units ''Adjunct Professor''), company_name = Some (units ''ACME U''),
              job_location = Some ''Austin, TX'', salary = None,
              description = Some ''Teaching and research'',
              related_links = Some [\<lparr>link_text = Some ''Company website'',
                                      link = Some ''https://acme.example''\<rparr>]\<rparr>"

definition textless :: rawJob where
  "textless = \<lparr>title = Some (units ''Adjunct Professor''), company_name = Some (units ''ACME U''),
               job_location = None, salary = None,
               description = Some ''Teaching and research'',
               related_links = Some [\<lparr>link_text = None, link = Some ''https://acme.example''\<rparr>]\<rparr>"

text \<open>
  A posting without related links whose title is the single code unit D800, a high
  surrogate without its partner, as a JSON string escape can deliver it.
\<close>

definition surrogate :: rawJob where
  "surrogate = \<lparr>title = Some [0xD800], company_name = Some (units ''Clinic''),
                job_location = None, salary = None, description = Some ''care'',
                related_links = None\<rparr>"

section \<open>The result cache\<close>

lemma fire_lookup:
  "fire t ts c k = (if \<exists>d. (d, k) \<in> set ts \<and> d \<le> t then None else c k)"
  by (induction ts arbitrary: c) auto

text \<open>
  An entry whose key has no callback pending when it is stored is served until its own
  deadline and is absent from then on.
\<close>

lemma get_put_fresh:
  assumes "k \<notin> snd ` set (timers st)"
  shows "get t k (put T k v st) = (if t < T + ttl then Some v else None)"
  using assms by (force simp: get_def put_def advance_def fire_lookup)

text \<open>
  The callback of an earlier \<open>put\<close> on the same key deletes by key: once its deadline
  has passed, the key is absent, whatever was stored under it in the meantime.
\<close>

lemma get_put_put:
  assumes "T2 < T1 + ttl" and "T1 + ttl \<le> t"
  shows "get t k (put T2 k v2 (advance T2 (put T1 k v1 st))) = None"
  using assms by (auto simp: get_def put_def advance_def fire_lookup)

text \<open>
  Without a cached entry under its key, a GET request with a missing or empty keyword is
  answered 400; the \<open>app.all\<close> handler answers 400 in every state.
\<close>

lemma scrapeJobsGet_missing_keyword:
  assumes "\<not> truthy (keyword qu)" and "cache st (cacheKey qu) = None"
  shows "scrapeJobsGet k st qu = Respond (Response 400 (ErrorBody (Some ''Keyword is required'') None))"
  using assms by (simp add: scrapeJobsGet_def)

lemma scrapeJobsAll_missing_keyword:
  assumes "\<not> truthy (keyword ps)"
  shows "scrapeJobsAll k ps = Respond (Response 400 (ErrorBody (Some ''Keyword is required'') None))"
  using assms by (simp add: scrapeJobsAll_def)

text \<open>A HEAD request is handled as the GET request with the same parameters.\<close>

lemma scrapeJobs_head_as_get:
  "scrapeJobs k st (req\<lparr>req_method := HEAD\<rparr>) = scrapeJobs k st (req\<lparr>req_method := GET\<rparr>)"
  by (simp add: scrapeJobs_def)

text \<open>
  C1. Claim: every request with an empty or absent keyword fails with status 400 and
  "Keyword is required" before any cache lookup, so that no cached value is returned for
  it. The GET handler looks the key up first. Run: \<open>GET ?keyword=undefined&location=undefined\<close>
  misses, is fetched and stored under \<open>undefined-undefined\<close>; a later GET request without
  any parameter has the same key and is answered 200 with the stored postings.
\<close>

theorem get_without_keyword_served_from_cache:
  "scrapeJobs (Some ''secret'') initial (getRequest (Some ''undefined'') (Some ''undefined''))
     = Await \<lparr>q = ''undefined'', param_location = ''undefined'', api_key = ''secret'',
              param_next_page_token = None\<rparr> (ResumeGet ''undefined-undefined'')
   \<and> scrapeJobs (Some ''secret'')
        (advance 1000 (fst (scrapeJobsGetResume 0 ''undefined-undefined'' (reply [nurse]) initial)))
        (getRequest None None)
     = Respond (Response 200 (RawJobs [nurse]))"
  by (simp add: scrapeJobs_def scrapeJobsGet_def scrapeJobsGetResume_def getRequest_def reply_def
      cacheKey_def toStr_def truthy_def orElse_def initial_def put_def advance_def ttl_def Let_def)

text \<open>
  C2. Claim: when a second \<open>put\<close> on a key happens before the first entry's ttl has
  elapsed, the first expiry never removes the second entry. Run: two GET requests for
  \<open>nurse\<close> in \<open>Texas\<close> both miss the empty cache; their upstream answers arrive at
  times 1000 and 2000. The second entry is served at time 3600999; at time 3601500,
  after the first deadline 3601000 and before the second deadline 3602000, the key is
  absent.
\<close>

theorem stale_timer_deletes_second_entry:
  "scrapeJobs (Some ''secret'') initial (getRequest (Some ''nurse'') (Some ''Texas''))
     = Await \<lparr>q = ''nurse'', param_location = ''Texas'', api_key = ''secret'',
              param_next_page_token = None\<rparr> (ResumeGet ''nurse-Texas'')
   \<and> get 3600999 ''nurse-Texas''
        (fst (scrapeJobsGetResume 2000 ''nurse-Texas'' (reply [medic])
           (advance 2000 (fst (scrapeJobsGetResume 1000 ''nurse-Texas'' (reply [nurse]) initial)))))
     = Some [medic]
   \<and> get 3601500 ''nurse-Texas''
        (fst (scrapeJobsGetResume 2000 ''nurse-Texas'' (reply [medic])
           (advance 2000 (fst (scrapeJobsGetResume 1000 ''nurse-Texas'' (reply [nurse]) initial)))))
     = None
   \<and> (3601500 :: nat) < 2000 + ttl"
  by (simp add: scrapeJobs_def scrapeJobsGet_def scrapeJobsGetResume_def getRequest_def reply_def
      cacheKey_def toStr_def truthy_def orElse_def initial_def put_def advance_def get_def ttl_def
      Let_def)

text \<open>
  C5. Claim: an entry inserted at time \<open>T\<close> with time-to-live \<open>\<Delta>\<close> is returned by
  \<open>get\<close> at every time before \<open>T + \<Delta>\<close> and is absent from \<open>T + \<Delta>\<close> on. Run on the
  cache alone: an entry is stored at time 0 and another under the same key at time 500.
  The second entry is served at time 3599999 and is absent at time 3600250, which is
  before its own deadline 3600500.
\<close>

theorem second_entry_expires_early:
  "get 3599999 ''k'' (put 500 ''k'' [medic] (advance 500 (put 0 ''k'' [nurse] initial))) = Some [medic]
   \<and> get 3600250 ''k'' (put 500 ''k'' [medic] (advance 500 (put 0 ''k'' [nurse] initial))) = None
   \<and> (3600250 :: nat) < 500 + ttl"
  by (simp add: initial_def put_def advance_def get_def ttl_def)

section \<open>The cache key\<close>

text \<open>
  C3, as claimed: two queries with the same keyword and the same location after
  defaulting have the same cache key. It fails for an absent location against
  \<open>United States\<close>: the key is built from the raw parameters and an absent location
  contributes \<open>undefined\<close>.
\<close>

theorem cacheKey_absent_location_differs:
  "keyword \<lparr>keyword = Some ''nurse'', location = None, next_page_token = None\<rparr>
     = keyword \<lparr>keyword = Some ''nurse'', location = Some ''United States'', next_page_token = None\<rparr>
   \<and> orElse (location \<lparr>keyword = Some ''nurse'', location = None, next_page_token = None\<rparr>)
         ''United States''
     = orElse (location \<lparr>keyword = Some ''nurse'', location = Some ''United States'',
                         next_page_token = None\<rparr>) ''United States''
   \<and> cacheKey \<lparr>keyword = Some ''nurse'', location = None, next_page_token = None\<rparr>
     = ''nurse-undefined''
   \<and> cacheKey \<lparr>keyword = Some ''nurse'', location = Some ''United States'', next_page_token = None\<rparr>
     = ''nurse-United States''
   \<and> cacheKey \<lparr>keyword = Some ''nurse'', location = None, next_page_token = None\<rparr>
     \<noteq> cacheKey \<lparr>keyword = Some ''nurse'', location = Some ''United States'',
                   next_page_token = None\<rparr>"
  by (simp add: cacheKey_def toStr_def orElse_def)

text \<open>
  C3, amended: two queries with the same keyword and the same location parameter as
  received (both absent, or the same string) have the same cache key, whatever their
  pagination tokens; the GET handler then treats them alike in every state.
\<close>

theorem cacheKey_ignores_page_token:
  assumes "keyword q1 = keyword q2" and "location q1 = location q2"
  shows "cacheKey q1 = cacheKey q2 \<and> scrapeJobsGet k st q1 = scrapeJobsGet k st q2"
  unfolding cacheKey_def scrapeJobsGet_def assms by simp

theorem cacheKey_ignores_page_token_witness:
  "cacheKey \<lparr>keyword = Some ''nurse'', location = Some ''Texas'', next_page_token = Some ''page2''\<rparr>
     = cacheKey \<lparr>keyword = Some ''nurse'', location = Some ''Texas'', next_page_token = None\<rparr>
   \<and> scrapeJobsGet (Some ''secret'') initial
        \<lparr>keyword = Some ''nurse'', location = Some ''Texas'', next_page_token = Some ''page2''\<rparr>
     = scrapeJobsGet (Some ''secret'') initial
        \<lparr>keyword = Some ''nurse'', location = Some ''Texas'', next_page_token = None\<rparr>"
  by (rule cacheKey_ignores_page_token) simp_all

section \<open>Keyword extraction: size, distinctness and origin of the keywords\<close>

lemma set_dedup: "set (dedup xs) = set xs"
  by (induction xs rule: dedup.induct) auto

lemma distinct_dedup: "distinct (dedup xs)"
  by (induction xs rule: dedup.induct) (auto simp: set_dedup)

lemma dedup_snoc:
  "dedup (xs @ [x]) = (if x \<in> set xs then dedup xs else dedup xs @ [x])"
  by (induction xs rule: dedup.induct) auto

text \<open>
  C4. For every description (and every tokenizer and sort order of the runtime), the
  list returned by \<open>extractKeywords\<close> has at most 10 entries, no two of them equal.
\<close>

theorem extractKeywords_bounded_distinct:
  "length (extractKeywords rt d) \<le> 10 \<and> distinct (extractKeywords rt d)"
  by (simp add: extractKeywords_def Let_def distinct_dedup)

theorem extractKeywords_bounded_distinct_witness:
  "length (extractKeywords refRuntime (Some ''cat dog cat bird dog cat'')) \<le> 10
   \<and> distinct (extractKeywords refRuntime (Some ''cat dog cat bird dog cat''))"
  by (rule extractKeywords_bounded_distinct)

lemma map_fst_setProp:
  "map fst (setProp ob k v) = (if k \<in> fst ` set ob then map fst ob else map fst ob @ [k])"
  by (induction ob) force+

lemma keys_setProp: "fst ` set (setProp ob k v) = insert k (fst ` set ob)"
proof -
  have "fst ` set (setProp ob k v) = set (map fst (setProp ob k v))" by simp
  also have "\<dots> = insert k (fst ` set ob)" unfolding map_fst_setProp by auto
  finally show ?thesis .
qed

lemma keys_countWord: "fst ` set (countWord acc w) \<subseteq> insert w (fst ` set acc)"
  by (auto simp: countWord_def keys_setProp split: option.splits count.splits if_splits)

lemma keys_foldl_countWord: "fst ` set (foldl countWord acc ws) \<subseteq> fst ` set acc \<union> set ws"
proof (induction ws arbitrary: acc)
  case Nil
  then show ?case by simp
next
  case (Cons w ws)
  have "fst ` set (foldl countWord (countWord acc w) ws) \<subseteq> fst ` set (countWord acc w) \<union> set ws"
    by (rule Cons.IH)
  also have "\<dots> \<subseteq> insert w (fst ` set acc) \<union> set ws"
    using keys_countWord [of acc w] by blast
  finally show ?case by auto
qed

lemma set_entries: "set (entries ob) = set ob"
  by (auto simp: entries_def)

lemma set_sortByCount:
  assumes "\<forall>es. set (sortInconsistent rt es) \<subseteq> set es"
  shows "set (sortByCount rt es) \<subseteq> set es"
  using assms by (simp add: sortByCount_def)

lemma topDynamicKeywords_subset:
  assumes "\<forall>es. set (sortInconsistent rt es) \<subseteq> set es"
  shows "set (topDynamicKeywords rt ws) \<subseteq> set ws"
proof -
  have "set (take 5 (sortByCount rt (entries (dynamicKeywords ws)))) \<subseteq> set (dynamicKeywords ws)"
    using set_sortByCount [OF assms, of "entries (dynamicKeywords ws)"]
      set_take_subset [of 5 "sortByCount rt (entries (dynamicKeywords ws))"]
    by (simp add: set_entries)
  then have "set (topDynamicKeywords rt ws) \<subseteq> fst ` set (dynamicKeywords ws)"
    by (auto simp: topDynamicKeywords_def)
  also have "\<dots> \<subseteq> set (filter keep ws)"
    using keys_foldl_countWord [of "[]" "filter keep ws"] by (simp add: dynamicKeywords_def)
  finally show ?thesis by auto
qed

text \<open>Every extracted keyword is a token of the lowercased description.\<close>

lemma extractKeywords_subset:
  assumes "\<forall>es. set (sortInconsistent rt es) \<subseteq> set es"
  shows "set (extractKeywords rt d) \<subseteq> set (tokenize rt (toLowerCase (toStr d)))"
proof (cases "truthy d")
  case False
  then show ?thesis by (simp add: extractKeywords_def)
next
  case True
  let ?ws = "tokenize rt (toLowerCase (toStr d))"
  have "set (extractKeywords rt d)
          \<subseteq> set (dedup (topDynamicKeywords rt ?ws @ filter (\<lambda>word. word \<in> set predefinedKeywords) ?ws))"
    using True by (simp add: extractKeywords_def Let_def set_take_subset)
  also have "\<dots> \<subseteq> set ?ws"
    using topDynamicKeywords_subset [OF assms, of ?ws] by (auto simp: set_dedup)
  finally show ?thesis .
qed

section \<open>The reference tokenizer and lowercasing\<close>

lemma splitWords_chars:
  "w \<in> set (splitWords cur s) \<Longrightarrow> set w \<subseteq> set cur \<union> set s"
  by (induction cur s rule: splitWords.induct) (auto split: if_splits)

lemma splitWords_wordChars:
  "w \<in> set (splitWords cur s) \<Longrightarrow> list_all isWordChar cur \<Longrightarrow> list_all isWordChar w"
  by (induction cur s rule: splitWords.induct) (auto split: if_splits)

lemma wordTokenize_chars: "w \<in> set (wordTokenize s) \<Longrightarrow> set w \<subseteq> set s"
  using splitWords_chars [of w "[]" s] by (simp add: wordTokenize_def)

lemma wordTokenize_no_space: "w \<in> set (wordTokenize s) \<Longrightarrow> CHR '' '' \<notin> set w"
proof
  assume w: "w \<in> set (wordTokenize s)" and sp: "CHR '' '' \<in> set w"
  have "list_all isWordChar w"
    using splitWords_wordChars [of w "[]" s] w by (simp add: wordTokenize_def)
  with sp have "isWordChar CHR '' ''" by (auto simp: list_all_iff)
  then show False by (simp add: isWordChar_def isAlnum_def)
qed

lemma toLowerChar_not_upper: "\<not> isUpper (toLowerChar c)"
  by (auto simp: isUpper_def toLowerChar_def Let_def)

lemma toLowerCase_no_upper: "c \<in> set (toLowerCase s) \<Longrightarrow> \<not> isUpper c"
  by (auto simp: toLowerCase_def toLowerChar_not_upper)

section \<open>Curated entries that cannot be extracted\<close>

text \<open>
  C7. When the tokenizer yields tokens without a space (and sorting returns entries of
  the array it was given), no entry of the curated vocabulary that contains a space
  appears in the output of \<open>extractKeywords\<close>, for any description.
\<close>

theorem multiword_entries_never_extracted:
  assumes "\<forall>s. \<forall>w \<in> set (tokenize rt s). CHR '' '' \<notin> set w"
    and "\<forall>es. set (sortInconsistent rt es) \<subseteq> set es"
    and "k \<in> set predefinedKeywords" and "CHR '' '' \<in> set k"
  shows "k \<notin> set (extractKeywords rt d)"
  using assms(1,4) extractKeywords_subset [OF assms(2), of d] by blast

theorem multiword_entries_never_extracted_witness:
  "''instructional design'' \<in> set predefinedKeywords
   \<and> CHR '' '' \<in> set ''instructional design''
   \<and> ''instructional design'' \<notin> set (extractKeywords refRuntime
        (Some ''Instructional design and learning outcomes in higher education''))
   \<and> extractKeywords refRuntime (Some ''Instructional design and learning outcomes in higher education'')
     = [''instructional'', ''design'', ''learning'', ''outcomes'', ''higher'']"
proof -
  have tok: "\<forall>s. \<forall>w \<in> set (tokenize refRuntime s). CHR '' '' \<notin> set w"
    by (simp add: refRuntime_def wordTokenize_no_space)
  have srt: "\<forall>es. set (sortInconsistent refRuntime es) \<subseteq> set es"
    by (simp add: refRuntime_def)
  have mem: "''instructional design'' \<in> set predefinedKeywords"
    by (simp add: predefinedKeywords_def)
  have sp: "CHR '' '' \<in> set ''instructional design''"
    by simp
  have run: "extractKeywords refRuntime (Some ''Instructional design and learning outcomes in higher education'')
     = [''instructional'', ''design'', ''learning'', ''outcomes'', ''higher'']"
    by code_simp
  show ?thesis
    using multiword_entries_never_extracted [OF tok srt mem sp] mem sp run by blast
qed

text \<open>The curated entries with an uppercase letter.\<close>

lemma uppercase_entries:
  "filter (list_ex isUpper) predefinedKeywords = [''STEM'', ''PhD'', ''EdD'']"
  by code_simp

text \<open>
  C9. When every token consists of characters of the tokenizer's input (and sorting
  returns entries of the array it was given), no curated entry with an uppercase
  letter, that is none of \<open>STEM\<close>, \<open>PhD\<close> and \<open>EdD\<close>, appears in the output of
  \<open>extractKeywords\<close>: the description is lowercased before it is tokenized.
\<close>

theorem uppercase_entries_never_extracted:
  assumes "\<forall>s. \<forall>w \<in> set (tokenize rt s). set w \<subseteq> set s"
    and "\<forall>es. set (sortInconsistent rt es) \<subseteq> set es"
  shows "''STEM'' \<notin> set (extractKeywords rt d)
       \<and> ''PhD'' \<notin> set (extractKeywords rt d)
       \<and> ''EdD'' \<notin> set (extractKeywords rt d)
       \<and> (\<forall>k \<in> set predefinedKeywords. list_ex isUpper k \<longrightarrow> k \<notin> set (extractKeywords rt d))"
proof -
  have low: "\<not> list_ex isUpper k" if "k \<in> set (extractKeywords rt d)" for k
  proof -
    from that extractKeywords_subset [OF assms(2), of d]
    have "k \<in> set (tokenize rt (toLowerCase (toStr d)))" by blast
    with assms(1) have "set k \<subseteq> set (toLowerCase (toStr d))" by blast
    then show ?thesis by (auto simp: list_ex_iff dest: toLowerCase_no_upper)
  qed
  have "list_ex isUpper ''STEM''" "list_ex isUpper ''PhD''" "list_ex isUpper ''EdD''"
    by (simp_all add: isUpper_def)
  with low show ?thesis by blast
qed

theorem uppercase_entries_never_extracted_witness:
  "''STEM'' \<notin> set (extractKeywords refRuntime (Some ''STEM faculty, PhD or EdD''))
   \<and> ''PhD'' \<notin> set (extractKeywords refRuntime (Some ''STEM faculty, PhD or EdD''))
   \<and> ''EdD'' \<notin> set (extractKeywords refRuntime (Some ''STEM faculty, PhD or EdD''))
   \<and> extractKeywords refRuntime (Some ''STEM faculty, PhD or EdD'')
     = [''stem'', ''faculty'', ''phd'', ''edd'']"
proof -
  have tok: "\<forall>s. \<forall>w \<in> set (tokenize refRuntime s). set w \<subseteq> set s"
    by (simp add: refRuntime_def wordTokenize_chars)
  have srt: "\<forall>es. set (sortInconsistent refRuntime es) \<subseteq> set es"
    by (simp add: refRuntime_def)
  have run: "extractKeywords refRuntime (Some ''STEM faculty, PhD or EdD'')
     = [''stem'', ''faculty'', ''phd'', ''edd'']"
    by code_simp
  show ?thesis
    using uppercase_entries_never_extracted [OF tok srt, of "Some ''STEM faculty, PhD or EdD''"] run
    by blast
qed

section \<open>The frequency ranking\<close>

lemma setProp_map_present:
  assumes "k \<in> set ks" and "distinct ks"
  shows "setProp (map (\<lambda>x. (x, c x)) ks) k v = map (\<lambda>x. (x, if x = k then v else c x)) ks"
  using assms by (induction ks) auto

lemma setProp_map_absent:
  assumes "k \<notin> set ks"
  shows "setProp (map (\<lambda>x. (x, c x)) ks) k v = map (\<lambda>x. (x, c x)) ks @ [(k, v)]"
  using assms by (induction ks) auto

lemma map_of_counts:
  "map_of (map (\<lambda>x. (x, c x)) ks) k = (if k \<in> set ks then Some (c k) else None)"
  by (induction ks) auto

text \<open>
  Without words that read through the prototype, the \<open>reduce\<close> builds the distinct
  words in first-occurrence order, each with its number of occurrences.
\<close>

lemma foldl_countWord:
  assumes "\<forall>w \<in> set ws. w \<notin> set prototypeFunctions \<and> w \<noteq> ''__proto__''"
  shows "foldl countWord [] ws = map (\<lambda>w. (w, Num (count_list ws w))) (dedup ws)"
  using assms
proof (induction ws rule: rev_induct)
  case Nil
  then show ?case by simp
next
  case (snoc w ws)
  then have IH: "foldl countWord [] ws = map (\<lambda>x. (x, Num (count_list ws x))) (dedup ws)"
    and w: "w \<notin> set prototypeFunctions" "w \<noteq> ''__proto__''"
    by auto
  show ?case
  proof (cases "w \<in> set ws")
    case True
    then have "countWord (foldl countWord [] ws) w
        = map (\<lambda>x. (x, if x = w then Num (count_list ws w + 1) else Num (count_list ws x))) (dedup ws)"
      by (simp add: IH countWord_def map_of_counts set_dedup setProp_map_present distinct_dedup)
    also have "\<dots> = map (\<lambda>x. (x, Num (count_list (ws @ [w]) x))) (dedup (ws @ [w]))"
      using True by (simp add: dedup_snoc)
    finally show ?thesis by simp
  next
    case False
    then have "countWord (foldl countWord [] ws) w
        = map (\<lambda>x. (x, Num (count_list ws x))) (dedup ws) @ [(w, Num 1)]"
      using w by (simp add: IH countWord_def map_of_counts set_dedup setProp_map_absent)
    also have "\<dots> = map (\<lambda>x. (x, Num (count_list (ws @ [w]) x))) (dedup (ws @ [w]))"
      using False by (auto simp: dedup_snoc set_dedup)
    finally show ?thesis by simp
  qed
qed

text \<open>
  The token \<open>constructor\<close> is counted as a string, not as a number: here it occurs
  twice.
\<close>

lemma constructor_count_is_string:
  "dynamicKeywords [''constructor'', ''site'', ''constructor'']
     = [(''constructor'', Str ''function Object() { [native code] }11''), (''site'', Num 1)]"
  by code_simp

text \<open>Among the inherited function names only \<open>constructor\<close> is free of uppercase letters.\<close>

lemma prototypeFunctions_lowercase:
  "list_all (\<lambda>k. k = ''constructor'' \<or> list_ex isUpper k) prototypeFunctions"
  by code_simp

lemma insort_key_map:
  "insort_key f (g x) (map g xs) = map g (insort_key (\<lambda>y. f (g y)) x xs)"
  by (induction xs) auto

lemma sort_key_map:
  "sort_key f (map g xs) = map g (sort_key (\<lambda>y. f (g y)) xs)"
  by (induction xs) (auto simp: insort_key_map)

lemma entries_map:
  "entries (map (\<lambda>w. (w, c w)) ks) = map (\<lambda>w. (w, c w)) (ownKeyOrder ks)"
  by (simp add: entries_def ownKeyOrder_def filter_map comp_def sort_key_map)

lemma sortByCount_map:
  "sortByCount rt (map (\<lambda>w. (w, Num (n w))) ks)
     = map (\<lambda>w. (w, Num (n w))) (sort_key (\<lambda>w. - int (n w)) ks)"
  by (simp add: sortByCount_def list_all_iff isNum_def numOf_def sort_key_map)

lemma ownKeyOrder_no_index:
  assumes "\<forall>k \<in> set ks. \<not> isArrayIndex k"
  shows "ownKeyOrder ks = ks"
  using assms by (simp add: ownKeyOrder_def)

text \<open>
  C6, as claimed: the tokens that pass the filter are ranked by descending frequency,
  ties in first-occurrence order. It fails for \<open>zebra 2024 100\<close>: each token occurs
  once, and the ranking is \<open>100\<close>, \<open>2024\<close>, \<open>zebra\<close>, because \<open>Object.entries\<close> lists
  array-index keys first, in numeric order.
\<close>

theorem ranking_array_index_tokens_first:
  "tokenize refRuntime (toLowerCase ''zebra 2024 100'') = [''zebra'', ''2024'', ''100'']
   \<and> count_list (filter keep [''zebra'', ''2024'', ''100'']) ''zebra'' = 1
   \<and> count_list (filter keep [''zebra'', ''2024'', ''100'']) ''2024'' = 1
   \<and> count_list (filter keep [''zebra'', ''2024'', ''100'']) ''100'' = 1
   \<and> take 5 (specRanking [''zebra'', ''2024'', ''100'']) = [''zebra'', ''2024'', ''100'']
   \<and> topDynamicKeywords refRuntime [''zebra'', ''2024'', ''100''] = [''100'', ''2024'', ''zebra'']
   \<and> extractKeywords refRuntime (Some ''zebra 2024 100'') = [''100'', ''2024'', ''zebra'']"
  by code_simp

text \<open>
  C6, amended: let the tokens be those of the lowercased description, made of characters
  of the tokenizer's input, and let none of them be \<open>constructor\<close> or \<open>__proto__\<close>.
  Then the tokens that pass the filter are ranked by descending frequency, ties in the
  key order of the frequency object (tokens that are array indices first, in ascending
  numeric order, then the other tokens in first-occurrence order), and the first 5 are
  the dynamic keywords. When moreover no token is an array index, ties are in
  first-occurrence order, as for \<open>cat dog cat bird dog cat\<close>, ranked \<open>cat\<close>, \<open>dog\<close>,
  \<open>bird\<close>.
\<close>

theorem dynamic_keywords_ranking:
  assumes "\<forall>s. \<forall>w \<in> set (tokenize rt s). set w \<subseteq> set s"
    and "ws = tokenize rt (toLowerCase d)"
    and "''constructor'' \<notin> set ws" and "''__proto__'' \<notin> set ws"
  shows "topDynamicKeywords rt ws
           = take 5 (sort_key (\<lambda>w. - int (count_list (filter keep ws) w))
                       (ownKeyOrder (dedup (filter keep ws))))
       \<and> ((\<forall>w \<in> set ws. \<not> isArrayIndex w) \<longrightarrow> topDynamicKeywords rt ws = take 5 (specRanking ws))"
proof -
  have plain: "w \<notin> set prototypeFunctions \<and> w \<noteq> ''__proto__''" if w: "w \<in> set ws" for w
  proof -
    from w assms(1,2) have "set w \<subseteq> set (toLowerCase d)" by blast
    then have "\<not> list_ex isUpper w"
      by (auto simp: list_ex_iff dest: toLowerCase_no_upper)
    moreover from w assms(3,4) have "w \<noteq> ''constructor''" "w \<noteq> ''__proto__''" by auto
    ultimately show ?thesis
      using prototypeFunctions_lowercase by (auto simp: list_all_iff)
  qed
  have dyn: "dynamicKeywords ws
      = map (\<lambda>w. (w, Num (count_list (filter keep ws) w))) (dedup (filter keep ws))"
    unfolding dynamicKeywords_def using plain by (intro foldl_countWord) auto
  have top: "topDynamicKeywords rt ws
           = take 5 (sort_key (\<lambda>w. - int (count_list (filter keep ws) w))
                       (ownKeyOrder (dedup (filter keep ws))))"
    by (simp add: dyn topDynamicKeywords_def entries_map sortByCount_map take_map comp_def)
  have "ownKeyOrder (dedup (filter keep ws)) = dedup (filter keep ws)"
    if "\<forall>w \<in> set ws. \<not> isArrayIndex w"
    using that by (intro ownKeyOrder_no_index) (simp add: set_dedup)
  with top show ?thesis by (simp add: specRanking_def)
qed

theorem dynamic_keywords_ranking_witness:
  "tokenize refRuntime (toLowerCase ''Cat dog CAT bird dog cat'')
     = [''cat'', ''dog'', ''cat'', ''bird'', ''dog'', ''cat'']
   \<and> topDynamicKeywords refRuntime [''cat'', ''dog'', ''cat'', ''bird'', ''dog'', ''cat'']
     = [''cat'', ''dog'', ''bird'']
   \<and> take 5 (specRanking [''cat'', ''dog'', ''cat'', ''bird'', ''dog'', ''cat''])
     = [''cat'', ''dog'', ''bird'']"
proof -
  let ?ws = "[''cat'', ''dog'', ''cat'', ''bird'', ''dog'', ''cat'']"
  have chars: "\<forall>s. \<forall>w \<in> set (tokenize refRuntime s). set w \<subseteq> set s"
    by (simp add: refRuntime_def wordTokenize_chars)
  have tok: "?ws = tokenize refRuntime (toLowerCase ''Cat dog CAT bird dog cat'')"
    by code_simp
  have c: "''constructor'' \<notin> set ?ws" and p: "''__proto__'' \<notin> set ?ws"
    by simp_all
  have i: "\<forall>w \<in> set ?ws. \<not> isArrayIndex w"
    by code_simp
  have r: "take 5 (specRanking ?ws) = [''cat'', ''dog'', ''bird'']"
    by code_simp
  from dynamic_keywords_ranking [OF chars tok c p] i
  have "topDynamicKeywords refRuntime ?ws = take 5 (specRanking ?ws)"
    by blast
  with tok r show ?thesis by simp
qed

section \<open>The apply link\<close>

lemma encodeURIComponent_append:
  assumes "encodeURIComponent a = Inr x" and "encodeURIComponent b = Inr y"
  shows "encodeURIComponent (a @ b) = Inr (x @ y)"
  using assms
proof (induction a arbitrary: x rule: encodeURIComponent.induct)
  case 1
  then show ?case by simp
next
  case (2 u us)
  show ?case
  proof (cases "uint u < 55296 \<or> 57344 \<le> uint u")
    case True
    with "2.prems" obtain r where r: "encodeURIComponent us = Inr r"
      and x: "x = encodeCodePoint (uint u) @ r"
      by (auto simp: Let_def split: sum.splits)
    from "2.IH"(1) [OF refl True r "2.prems"(2)] True x show ?thesis
      by (simp add: Let_def)
  next
    case False
    with "2.prems" obtain v vs r where us: "us = v # vs"
      and hi: "\<not> 56320 \<le> uint u"
      and lo: "\<not> (uint v < 56320 \<or> 57344 \<le> uint v)"
      and r: "encodeURIComponent vs = Inr r"
      and x: "x = encodeCodePoint ((uint u - 55296) * 1024 + (uint v - 56320) + 65536) @ r"
      by (auto simp: Let_def split: sum.splits list.splits if_splits)
    from "2.IH"(2) [OF refl False hi us lo r "2.prems"(2)] False hi us lo x show ?thesis
      by (simp add: Let_def)
  qed
qed

lemma encode_space: "encodeURIComponent (units '' '') = Inr ''%20''"
  by code_simp

lemma encode_sites:
  "encodeURIComponent (units '' site:higheredjobs.com OR site:linkedin.com OR site:edjoin.org'')
     = Inr ''%20site%3Ahigheredjobs.com%20OR%20site%3Alinkedin.com%20OR%20site%3Aedjoin.org''"
  by code_simp

lemma fallbackLink_shape:
  assumes "encodeURIComponent (toUnits (title job)) = Inr r"
    and "encodeURIComponent (toUnits (company_name job)) = Inr c"
  shows "fallbackLink job =
     Inr (''https://www.google.com/search?q='' @ r @ ''%20'' @ c
          @ ''%20site%3Ahigheredjobs.com%20OR%20site%3Alinkedin.com%20OR%20site%3Aedjoin.org'')"
proof -
  have "encodeURIComponent
          (toUnits (title job) @ units '' '' @ toUnits (company_name job)
           @ units '' site:higheredjobs.com OR site:linkedin.com OR site:edjoin.org'')
        = Inr (r @ ''%20'' @ c
               @ ''%20site%3Ahigheredjobs.com%20OR%20site%3Alinkedin.com%20OR%20site%3Aedjoin.org'')"
    by (intro encodeURIComponent_append assms encode_space encode_sites)
  then show ?thesis by (simp add: fallbackLink_def)
qed

lemma findApply_none:
  assumes "\<forall>l \<in> set ls. \<exists>t. link_text l = Some t \<and> \<not> isApplyText t"
  shows "findApply ls = Inr None"
  using assms by (induction ls) auto

lemma findApply_total:
  assumes "\<forall>l \<in> set ls. link_text l \<noteq> None"
  shows "\<exists>r. findApply ls = Inr r"
  using assms by (induction ls) auto

text \<open>
  Away from the two failures below, the mapper behaves as described. When every related
  link has a text, none of them an apply text, and the title and the company name can be
  encoded, the posting gets the fallback URL: the search prefix, the encoded role,
  \<open>%20\<close>, the encoded company name and the encoded site filters.
\<close>

lemma fallback_when_well_formed:
  assumes "truthy (description job)"
    and "\<forall>ls. related_links job = Some ls \<longrightarrow>
           (\<forall>l \<in> set ls. \<exists>t. link_text l = Some t \<and> \<not> isApplyText t)"
    and "encodeURIComponent (toUnits (title job)) = Inr r"
    and "encodeURIComponent (toUnits (company_name job)) = Inr c"
  shows "\<exists>rec. mapJob rt job = Inr (Some rec) \<and> role rec = title job
           \<and> company rec = company_name job \<and> url rec \<noteq> []
           \<and> url rec = ''https://www.google.com/search?q='' @ r @ ''%20'' @ c
                @ ''%20site%3Ahigheredjobs.com%20OR%20site%3Alinkedin.com%20OR%20site%3Aedjoin.org''"
proof -
  have "applyLink job = fallbackLink job"
  proof (cases "related_links job")
    case None
    then show ?thesis by (simp add: applyLink_def)
  next
    case (Some ls)
    with assms(2) have "findApply ls = Inr None" by (intro findApply_none) simp
    with Some show ?thesis by (simp add: applyLink_def)
  qed
  with assms(1) show ?thesis
    by (simp add: mapJob_def fallbackLink_shape [OF assms(3,4)])
qed

text \<open>
  When every related link has a text and the title and the company name can be encoded,
  the mapper does not throw.
\<close>

lemma mapJob_total_when_well_formed:
  assumes "\<forall>ls. related_links job = Some ls \<longrightarrow> (\<forall>l \<in> set ls. link_text l \<noteq> None)"
    and "encodeURIComponent (toUnits (title job)) = Inr r"
    and "encodeURIComponent (toUnits (company_name job)) = Inr c"
  shows "\<exists>res. mapJob rt job = Inr res"
proof -
  obtain f where f: "fallbackLink job = Inr f"
    using fallbackLink_shape [OF assms(2,3)] by blast
  have "\<exists>u. applyLink job = Inr u"
  proof (cases "related_links job")
    case None
    with f show ?thesis by (simp add: applyLink_def)
  next
    case (Some ls)
    with assms(1) have "\<forall>l \<in> set ls. link_text l \<noteq> None" by simp
    then obtain res where "findApply ls = Inr res" using findApply_total by blast
    with Some f show ?thesis by (cases res) (simp_all add: applyLink_def)
  qed
  then show ?thesis by (auto simp: mapJob_def)
qed

lemma adjunct_fallback:
  "map_sum id (map_option url) (mapJob refRuntime adjunct)
     = Inr (Some ''https://www.google.com/search?q=Adjunct%20Professor%20ACME%20U%20site%3Ahigheredjobs.com%20OR%20site%3Alinkedin.com%20OR%20site%3Aedjoin.org'')"
  by code_simp

text \<open>
  C8. Claim: every posting with a description and without a related link whose text
  contains "apply" or "job posting" gets a fallback URL. Run: the posting \<open>textless\<close>
  has a description and one related link, which has no text; no link text contains
  either phrase. The callback of \<open>find\<close> throws on it, no URL is assigned, and the
  exception ends the whole request: a reply of three postings, the other two well
  formed, is answered with status 500.
\<close>

theorem textless_link_no_fallback:
  "truthy (description textless)
   \<and> related_links textless = Some [\<lparr>link_text = None, link = Some ''https://acme.example''\<rparr>]
   \<and> mapJob refRuntime textless
       = Inl (TypeError ''Cannot read properties of undefined (reading 'toLowerCase')'')
   \<and> scrapeJobsAllResume refRuntime (reply [adjunct, textless, nurse])
       = Response 500 (ErrorBody (Some ''Failed to fetch jobs'')
           (Some ''Cannot read properties of undefined (reading 'toLowerCase')''))"
  by code_simp

text \<open>
  C10. Claim: every posting whose related links all have a text is mapped without
  error. Run: the posting \<open>surrogate\<close> has a description and no related links at all,
  so it meets the precondition; its title is a high surrogate without its partner.
  Building the fallback URL throws \<open>URIError\<close>, and a reply holding this posting is
  answered with status 500.
\<close>

theorem lone_surrogate_title_throws:
  "truthy (description surrogate)
   \<and> related_links surrogate = None
   \<and> title surrogate = Some [0xD800]
   \<and> mapJob refRuntime surrogate = Inl (URIError ''URI malformed'')
   \<and> scrapeJobsAllResume refRuntime (reply [nurse, surrogate])
       = Response 500 (ErrorBody (Some ''Failed to fetch jobs'') (Some ''URI malformed''))"
  by code_simp

end
